theory Spec2Isabelle
  imports Main
begin

section \<open>Data model\<close>

text \<open>
  Go strings and byte slices are both sequences of bytes, and the conversions
  \<^verbatim>\<open>[]byte(s)\<close> and \<^verbatim>\<open>string(b)\<close> keep the bytes, so one type serves for both.
  \<^verbatim>\<open>type SecretStore map[string]string\<close> is a partial map.
\<close>

type_synonym bytes = string
type_synonym SecretStore = "string \<rightharpoonup> string"

definition pinKey :: string where
  "pinKey = ''__meta__pin_hash''"

definition defaultSecretsFile :: string where
  "defaultSecretsFile = ''~/.sec.enc''"

text \<open>
  Errors. The constructors built by the program itself (\<^verbatim>\<open>errors.New\<close>, \<^verbatim>\<open>fmt.Errorf\<close>)
  are distinct from the ones handed up from the libraries, as Go error values are.
\<close>

datatype os_error = ENOENT | EACCES | ENOSPC

datatype error =
    Os os_error            \<comment> \<open>from \<^verbatim>\<open>ioutil.ReadFile\<close> and \<^verbatim>\<open>ioutil.WriteFile\<close>\<close>
  | InvalidKeyFileLength   \<comment> \<open>\<^verbatim>\<open>fmt.Errorf("invalid key file length")\<close>\<close>
  | BadKeyLength           \<comment> \<open>from \<^verbatim>\<open>chacha20poly1305.NewX\<close>\<close>
  | CiphertextTooShort     \<comment> \<open>\<^verbatim>\<open>errors.New("invalid ciphertext: too short")\<close>\<close>
  | OpenFailed             \<comment> \<open>from \<^verbatim>\<open>aead.Open\<close>: message authentication failed\<close>
  | JsonError              \<comment> \<open>from \<^verbatim>\<open>json.Marshal\<close> and \<^verbatim>\<open>json.Unmarshal\<close>\<close>
  | RandError              \<comment> \<open>from \<^verbatim>\<open>rand.Read\<close>\<close>
  | BcryptError            \<comment> \<open>from \<^verbatim>\<open>bcrypt.GenerateFromPassword\<close>\<close>
  | InputError             \<comment> \<open>from reading the terminal\<close>
  | IncorrectPIN           \<comment> \<open>\<^verbatim>\<open>errors.New("incorrect PIN")\<close>\<close>
  | TooManyAttempts        \<comment> \<open>\<^verbatim>\<open>errors.New("too many incorrect attempts")\<close>\<close>

section \<open>The libraries the program calls\<close>

text \<open>
  The cipher, the JSON codec, bcrypt, \<^verbatim>\<open>filepath.Join\<close> and the order in which a
  \<^verbatim>\<open>range\<close> statement visits a map are not code of this program. They are the fields of
  a record that every function of the model takes as its first argument.
  \<^item> \<open>aead_seal key nonce plaintext\<close> is what \<^verbatim>\<open>Seal\<close> appends to its destination:
    the ciphertext followed by the tag;
  \<^item> \<open>aead_open key nonce ciphertext\<close> is \<open>None\<close> when \<^verbatim>\<open>Open\<close> returns an error;
  \<^item> \<open>bcrypt_generate password salt cost\<close> is \<open>None\<close> when
    \<^verbatim>\<open>GenerateFromPassword\<close> returns an error; the salt is 16 bytes that bcrypt
    reads from the random source;
  \<^item> \<open>bcrypt_compare hash password\<close> holds when \<^verbatim>\<open>CompareHashAndPassword\<close>
    returns \<^verbatim>\<open>nil\<close>.
\<close>

record lib =
  aead_seal :: "bytes \<Rightarrow> bytes \<Rightarrow> bytes \<Rightarrow> bytes"
  aead_open :: "bytes \<Rightarrow> bytes \<Rightarrow> bytes \<Rightarrow> bytes option"
  json_marshal :: "SecretStore \<Rightarrow> bytes option"
  json_unmarshal :: "bytes \<Rightarrow> SecretStore option"
  bcrypt_generate :: "bytes \<Rightarrow> bytes \<Rightarrow> nat \<Rightarrow> bytes option"
  bcrypt_compare :: "bytes \<Rightarrow> bytes \<Rightarrow> bool"
  filepath_join :: "string \<Rightarrow> string \<Rightarrow> string"
  map_range :: "SecretStore \<Rightarrow> string list"

definition KeySize :: nat where
  "KeySize = 32"

definition NonceSizeX :: nat where
  "NonceSizeX = 24"

definition DefaultCost :: nat where
  "DefaultCost = 10"

text \<open>\<^verbatim>\<open>chacha20poly1305.NewX(key)\<close> fails unless the key has \<open>KeySize\<close> bytes.\<close>

definition NewX :: "bytes \<Rightarrow> error + bytes" where
  "NewX key = (if length key = KeySize then Inr key else Inl BadKeyLength)"

text \<open>\<^verbatim>\<open>aead.Seal(dst, nonce, plaintext, nil)\<close> appends to \<open>dst\<close> and returns the result.\<close>

definition Seal :: "lib \<Rightarrow> bytes \<Rightarrow> bytes \<Rightarrow> bytes \<Rightarrow> bytes \<Rightarrow> bytes" where
  "Seal L aead dst nonce plaintext = dst @ aead_seal L aead nonce plaintext"

section \<open>The world the program runs in\<close>

text \<open>
  A file has its bytes and its permission bits. The world holds the files, the home
  directory, the lines still to be typed at the terminal (a read can also fail), what
  was printed so far (one entry per call of a print function), the random source, and
  the faults that the coming calls of \<^verbatim>\<open>ioutil.WriteFile\<close> will meet.
\<close>

record osfile =
  content :: bytes
  mode :: nat

datatype rand_src = RandBroken | RandStream "nat \<Rightarrow> char"

datatype write_fault = NoFault | FailOpen os_error | FailWrite nat os_error

record world =
  files :: "string \<rightharpoonup> osfile"
  home :: string
  stdin :: "(error + string) list"
  stdout :: "string list"
  rng :: rand_src
  faults :: "write_fault list"

definition nl :: string where
  "nl = [CHR 0x0A]"

definition Print :: "string \<Rightarrow> world \<Rightarrow> world" where
  "Print s w = w\<lparr>stdout := stdout w @ [s]\<rparr>"

definition Println :: "string \<Rightarrow> world \<Rightarrow> world" where
  "Println s w = w\<lparr>stdout := stdout w @ [s @ nl]\<rparr>"

text \<open>
  \<^verbatim>\<open>rand.Read(b)\<close> fills the whole of \<open>b\<close> or returns an error. The random source
  is a stream of bytes; a read takes the first \<open>n\<close> of them.
\<close>

definition first_bytes :: "(nat \<Rightarrow> char) \<Rightarrow> nat \<Rightarrow> bytes" where
  "first_bytes g n = map g [0..<n]"

definition rand_Read :: "nat \<Rightarrow> world \<Rightarrow> bytes option \<times> world" where
  "rand_Read n w =
     (case rng w of
        RandBroken \<Rightarrow> (None, w)
      | RandStream g \<Rightarrow> (Some (first_bytes g n), w\<lparr>rng := RandStream (\<lambda>i. g (i + n))\<rparr>))"

text \<open>
  \<^verbatim>\<open>ioutil.ReadFile\<close>: a missing file is \<open>ENOENT\<close>; a file whose owner-read bit
  (octal 0400) is clear cannot be read.
\<close>

definition owner_readable :: "osfile \<Rightarrow> bool" where
  "owner_readable f = ((mode f div 256) mod 2 = 1)"

definition owner_writable :: "osfile \<Rightarrow> bool" where
  "owner_writable f = ((mode f div 128) mod 2 = 1)"

definition ReadFile :: "string \<Rightarrow> world \<Rightarrow> error + bytes" where
  "ReadFile path w =
     (case files w path of
        None \<Rightarrow> Inl (Os ENOENT)
      | Some f \<Rightarrow> if owner_readable f then Inr (content f) else Inl (Os EACCES))"

definition IsNotExist :: "error \<Rightarrow> bool" where
  "IsNotExist err = (err = Os ENOENT)"

text \<open>
  \<^verbatim>\<open>ioutil.WriteFile(path, data, perm)\<close>, as its documentation has it: a file that does
  not exist is created with permissions \<open>perm\<close>; one that exists is truncated before
  writing and keeps its permissions. The call opens the file, writes and closes. When
  opening fails nothing changes; when writing fails after \<open>n\<close> bytes, the file holds
  those \<open>n\<close> bytes.
\<close>

definition next_fault :: "world \<Rightarrow> write_fault" where
  "next_fault w = (case faults w of [] \<Rightarrow> NoFault | x # _ \<Rightarrow> x)"

definition WriteFile :: "string \<Rightarrow> bytes \<Rightarrow> nat \<Rightarrow> world \<Rightarrow> error option \<times> world" where
  "WriteFile path data perm w =
     (let w1 = w\<lparr>faults := tl (faults w)\<rparr>;
          m = (case files w path of None \<Rightarrow> perm | Some f \<Rightarrow> mode f);
          put = (\<lambda>bs. w1\<lparr>files := (files w)(path \<mapsto> \<lparr>content = bs, mode = m\<rparr>)\<rparr>)
      in if (case files w path of None \<Rightarrow> False | Some f \<Rightarrow> \<not> owner_writable f)
         then (Some (Os EACCES), w)
         else (case next_fault w of
                 NoFault \<Rightarrow> (None, put data)
               | FailOpen e \<Rightarrow> (Some (Os e), w1)
               | FailWrite n e \<Rightarrow> (Some (Os e), put (take n data))))"

section \<open>Key file and cipher (sec.go)\<close>

text \<open>
  \<^verbatim>\<open>expandPath\<close>: a leading \<^verbatim>\<open>~\<close> is replaced by the home directory (the error of
  \<^verbatim>\<open>os.UserHomeDir\<close> is dropped by the source).
\<close>

definition expandPath :: "lib \<Rightarrow> world \<Rightarrow> string \<Rightarrow> string" where
  "expandPath L w p =
     (if take 1 p = ''~'' then filepath_join L (home w) (drop 1 p) else p)"

definition keyFile :: string where
  "keyFile = ''~/.sec.key''"

definition getOrCreateStaticKey :: "lib \<Rightarrow> world \<Rightarrow> (error + bytes) \<times> world" where
  "getOrCreateStaticKey L w =
     (let keyPath = expandPath L w keyFile in
      case ReadFile keyPath w of
        Inr data \<Rightarrow>
          if length data = 32 then (Inr data, w)
          else (Inl InvalidKeyFileLength, w)
      | Inl err \<Rightarrow>
          if IsNotExist err then
            (case rand_Read 32 w of
               (None, w1) \<Rightarrow> (Inl RandError, w1)
             | (Some key, w1) \<Rightarrow>
                 (case WriteFile keyPath key 384 w1 of
                    (Some e, w2) \<Rightarrow> (Inl e, w2)
                  | (None, w2) \<Rightarrow> (Inr key, w2)))
          else (Inl err, w))"

definition encryptStore :: "lib \<Rightarrow> SecretStore \<Rightarrow> bytes \<Rightarrow> world \<Rightarrow> (error + bytes) \<times> world" where
  "encryptStore L store key w =
     (case NewX key of
        Inl e \<Rightarrow> (Inl e, w)
      | Inr aead \<Rightarrow>
          (case json_marshal L store of
             None \<Rightarrow> (Inl JsonError, w)
           | Some plaintext \<Rightarrow>
               (case rand_Read NonceSizeX w of
                  (None, w1) \<Rightarrow> (Inl RandError, w1)
                | (Some nonce, w1) \<Rightarrow> (Inr (Seal L aead nonce nonce plaintext), w1))))"

definition decryptStore :: "lib \<Rightarrow> bytes \<Rightarrow> bytes \<Rightarrow> error + SecretStore" where
  "decryptStore L data key =
     (case NewX key of
        Inl e \<Rightarrow> Inl e
      | Inr aead \<Rightarrow>
          if length data < NonceSizeX then Inl CiphertextTooShort
          else
            (let nonce = take NonceSizeX data;
                 ciphertext = drop NonceSizeX data
             in case aead_open L aead nonce ciphertext of
                  None \<Rightarrow> Inl OpenFailed
                | Some plaintext \<Rightarrow>
                    (case json_unmarshal L plaintext of
                       None \<Rightarrow> Inl JsonError
                     | Some store \<Rightarrow> Inr store)))"

definition loadStore :: "lib \<Rightarrow> string \<Rightarrow> bytes \<Rightarrow> world \<Rightarrow> error + SecretStore" where
  "loadStore L path key w =
     (case ReadFile path w of
        Inl err \<Rightarrow> if IsNotExist err then Inr Map.empty else Inl err
      | Inr data \<Rightarrow> decryptStore L data key)"

definition saveStore :: "lib \<Rightarrow> string \<Rightarrow> SecretStore \<Rightarrow> bytes \<Rightarrow> world \<Rightarrow> error option \<times> world" where
  "saveStore L path store key w =
     (case encryptStore L store key w of
        (Inl e, w1) \<Rightarrow> (Some e, w1)
      | (Inr data, w1) \<Rightarrow> WriteFile path data 384 w1)"

section \<open>PIN prompt and check (sec.go)\<close>

text \<open>
  Reading one line with a fresh \<^verbatim>\<open>bufio.Scanner\<close> on the standard input:
  \<^verbatim>\<open>Scan\<close> gives a line, or is false at the end of the input (then \<^verbatim>\<open>Err\<close> is
  \<^verbatim>\<open>nil\<close>) or on a read error.
\<close>

datatype scan = Line string | EOF | ReadErr error

definition Scan :: "world \<Rightarrow> scan \<times> world" where
  "Scan w =
     (case stdin w of
        [] \<Rightarrow> (EOF, w)
      | Inl e # rest \<Rightarrow> (ReadErr e, w\<lparr>stdin := rest\<rparr>)
      | Inr l # rest \<Rightarrow> (Line l, w\<lparr>stdin := rest\<rparr>))"

definition promptPIN :: "world \<Rightarrow> (error + string) \<times> world" where
  "promptPIN w =
     (case Scan (Print ''Enter PIN: '' w) of
        (Line l, w1) \<Rightarrow> (Inr l, w1)
      | (EOF, w1) \<Rightarrow> (Inr [], w1)
      | (ReadErr e, w1) \<Rightarrow> (Inl e, w1))"

definition requirePIN :: "lib \<Rightarrow> SecretStore \<Rightarrow> world \<Rightarrow> error option \<times> world" where
  "requirePIN L store w =
     (case store pinKey of
        None \<Rightarrow> (None, w)
      | Some hash \<Rightarrow>
          (case promptPIN w of
             (Inl err, w1) \<Rightarrow> (Some err, w1)
           | (Inr pin, w1) \<Rightarrow>
               if bcrypt_compare L hash pin then (None, w1)
               else (Some IncorrectPIN, w1)))"

text \<open>
  \<^verbatim>\<open>bcrypt.GenerateFromPassword\<close> draws its 16-byte salt from the random source.
\<close>

definition GenerateFromPassword :: "lib \<Rightarrow> bytes \<Rightarrow> nat \<Rightarrow> world \<Rightarrow> (error + bytes) \<times> world" where
  "GenerateFromPassword L password cost w =
     (case rand_Read 16 w of
        (None, w1) \<Rightarrow> (Inl RandError, w1)
      | (Some salt, w1) \<Rightarrow>
          (case bcrypt_generate L password salt cost of
             None \<Rightarrow> (Inl BcryptError, w1)
           | Some hash \<Rightarrow> (Inr hash, w1)))"

section \<open>PIN prompt and check (store/store.go)\<close>

text \<open>
  \<^verbatim>\<open>term.ReadPassword\<close> reads one line without echo; at the end of the input it
  returns an error. \<^verbatim>\<open>promptPIN\<close> prints the prompt, reads, and prints a newline
  before it looks at the error.
\<close>

definition store_promptPIN :: "string \<Rightarrow> world \<Rightarrow> (error + string) \<times> world" where
  "store_promptPIN prompt w =
     (let w1 = Print prompt w in
      case stdin w1 of
        [] \<Rightarrow> (Inl InputError, Println [] w1)
      | x # rest \<Rightarrow> (x, Println [] (w1\<lparr>stdin := rest\<rparr>)))"

definition store_setPIN :: "lib \<Rightarrow> SecretStore \<Rightarrow> world \<Rightarrow> (error option \<times> SecretStore) \<times> world" where
  "store_setPIN L store w =
     (case store_promptPIN ''Enter new PIN: '' w of
        (Inl err, w1) \<Rightarrow> ((Some err, store), w1)
      | (Inr pin, w1) \<Rightarrow>
          (case GenerateFromPassword L pin DefaultCost w1 of
             (Inl err, w2) \<Rightarrow> ((Some err, store), w2)
           | (Inr hash, w2) \<Rightarrow> ((None, store(pinKey \<mapsto> hash)), w2)))"




section \<open>Commands (sec.go)\<close>

text \<open>
  A command's \<^verbatim>\<open>Run\<close> function returns, or ends the process through
  \<^verbatim>\<open>log.Fatal\<close>/\<^verbatim>\<open>log.Fatalf\<close> with a message prefix and, where there is one, the error.
  The positional arguments are parameters: \<^verbatim>\<open>cobra.ExactArgs\<close> fixes their number.
\<close>

datatype exit = Return | Fatal string "error option"

definition setCmd :: "lib \<Rightarrow> string \<Rightarrow> string \<Rightarrow> string \<Rightarrow> world \<Rightarrow> exit \<times> world" where
  "setCmd L fileFlag name val w =
     (case getOrCreateStaticKey L w of
        (Inl err, w1) \<Rightarrow> (Fatal [] (Some err), w1)
      | (Inr key, w1) \<Rightarrow>
          (case loadStore L (expandPath L w1 fileFlag) key w1 of
             Inl err \<Rightarrow> (Fatal [] (Some err), w1)
           | Inr store \<Rightarrow>
               (case saveStore L (expandPath L w1 fileFlag) (store(name \<mapsto> val)) key w1 of
                  (Some err, w2) \<Rightarrow> (Fatal [] (Some err), w2)
                | (None, w2) \<Rightarrow> (Return, Println ''Secret set.'' w2))))"

text \<open>\<^verbatim>\<open>store[args[0]]\<close> of a missing key is the empty string.\<close>

definition getCmd :: "lib \<Rightarrow> string \<Rightarrow> string \<Rightarrow> world \<Rightarrow> exit \<times> world" where
  "getCmd L fileFlag name w =
     (case getOrCreateStaticKey L w of
        (Inl err, w1) \<Rightarrow> (Fatal [] (Some err), w1)
      | (Inr key, w1) \<Rightarrow>
          (case loadStore L (expandPath L w1 fileFlag) key w1 of
             Inl err \<Rightarrow> (Fatal [] (Some err), w1)
           | Inr store \<Rightarrow>
               (Return, Println (case store name of None \<Rightarrow> [] | Some v \<Rightarrow> v) w1)))"

definition deleteCmd :: "lib \<Rightarrow> string \<Rightarrow> string \<Rightarrow> world \<Rightarrow> exit \<times> world" where
  "deleteCmd L fileFlag name w =
     (case getOrCreateStaticKey L w of
        (Inl err, w1) \<Rightarrow> (Fatal [] (Some err), w1)
      | (Inr key, w1) \<Rightarrow>
          (case loadStore L (expandPath L w1 fileFlag) key w1 of
             Inl err \<Rightarrow> (Fatal [] (Some err), w1)
           | Inr store \<Rightarrow>
               (case saveStore L (expandPath L w1 fileFlag) (store(name := None)) key w1 of
                  (Some err, w2) \<Rightarrow> (Fatal [] (Some err), w2)
                | (None, w2) \<Rightarrow> (Return, Println ''Secret deleted.'' w2))))"

text \<open>
  \<^verbatim>\<open>for k := range store\<close>: the keys come in the order \<open>map_range\<close> gives for this run.
\<close>

fun list_loop :: "string list \<Rightarrow> world \<Rightarrow> world" where
  "list_loop [] w = w"
| "list_loop (k # ks) w = list_loop ks (if k \<noteq> pinKey then Println k w else w)"

definition listCmd :: "lib \<Rightarrow> string \<Rightarrow> world \<Rightarrow> exit \<times> world" where
  "listCmd L fileFlag w =
     (case getOrCreateStaticKey L w of
        (Inl err, w1) \<Rightarrow> (Fatal [] (Some err), w1)
      | (Inr key, w1) \<Rightarrow>
          (case loadStore L (expandPath L w1 fileFlag) key w1 of
             Inl err \<Rightarrow> (Fatal [] (Some err), w1)
           | Inr store \<Rightarrow> (Return, list_loop (map_range L store) w1)))"

definition setPinCmd :: "lib \<Rightarrow> string \<Rightarrow> world \<Rightarrow> exit \<times> world" where
  "setPinCmd L fileFlag w =
     (case getOrCreateStaticKey L w of
        (Inl err, w1) \<Rightarrow> (Fatal ''Failed to get key: '' (Some err), w1)
      | (Inr key, w1) \<Rightarrow>
          (case loadStore L (expandPath L w1 fileFlag) key w1 of
             Inl err \<Rightarrow> (Fatal ''Failed to load store: '' (Some err), w1)
           | Inr store \<Rightarrow>
               if store pinKey \<noteq> None then
                 (Return, Println ''PIN already set. Use change-pin or remove-pin instead.'' w1)
               else
                 (case Scan (Print ''Enter new PIN: '' w1) of
                    (Line pin, w2) \<Rightarrow>
                      (case GenerateFromPassword L pin DefaultCost w2 of
                         (Inl err, w3) \<Rightarrow> (Fatal ''Failed to hash PIN: '' (Some err), w3)
                       | (Inr hash, w3) \<Rightarrow>
                           (case saveStore L (expandPath L w3 fileFlag) (store(pinKey \<mapsto> hash)) key w3 of
                              (Some err, w4) \<Rightarrow> (Fatal ''Failed to save store: '' (Some err), w4)
                            | (None, w4) \<Rightarrow> (Return, Println ''PIN set.'' w4)))
                  | (_, w2) \<Rightarrow> (Fatal ''No input'' None, w2))))"

definition changePinCmd :: "lib \<Rightarrow> string \<Rightarrow> world \<Rightarrow> exit \<times> world" where
  "changePinCmd L fileFlag w =
     (case getOrCreateStaticKey L w of
        (Inl err, w1) \<Rightarrow> (Fatal ''Failed to get key: '' (Some err), w1)
      | (Inr key, w1) \<Rightarrow>
          (case loadStore L (expandPath L w1 fileFlag) key w1 of
             Inl err \<Rightarrow> (Fatal ''Failed to load store: '' (Some err), w1)
           | Inr store \<Rightarrow>
               (case requirePIN L store w1 of
                  (Some err, w2) \<Rightarrow> (Fatal ''Authentication failed: '' (Some err), w2)
                | (None, w2) \<Rightarrow>
                    (case Scan (Print ''Enter new PIN: '' w2) of
                       (Line pin, w3) \<Rightarrow>
                         (case GenerateFromPassword L pin DefaultCost w3 of
                            (Inl err, w4) \<Rightarrow> (Fatal ''Failed to hash PIN: '' (Some err), w4)
                          | (Inr hash, w4) \<Rightarrow>
                              (case saveStore L (expandPath L w4 fileFlag) (store(pinKey \<mapsto> hash)) key w4 of
                                 (Some err, w5) \<Rightarrow> (Fatal ''Failed to save store: '' (Some err), w5)
                               | (None, w5) \<Rightarrow> (Return, Println ''PIN changed.'' w5)))
                     | (_, w3) \<Rightarrow> (Fatal ''No input'' None, w3)))))"

definition removePinCmd :: "lib \<Rightarrow> string \<Rightarrow> world \<Rightarrow> exit \<times> world" where
  "removePinCmd L fileFlag w =
     (case getOrCreateStaticKey L w of
        (Inl err, w1) \<Rightarrow> (Fatal ''Failed to get key: '' (Some err), w1)
      | (Inr key, w1) \<Rightarrow>
          (case loadStore L (expandPath L w1 fileFlag) key w1 of
             Inl err \<Rightarrow> (Fatal ''Failed to load store: '' (Some err), w1)
           | Inr store \<Rightarrow>
               (case requirePIN L store w1 of
                  (Some err, w2) \<Rightarrow> (Fatal ''Authentication failed: '' (Some err), w2)
                | (None, w2) \<Rightarrow>
                    (case saveStore L (expandPath L w2 fileFlag) (store(pinKey := None)) key w2 of
                       (Some err, w3) \<Rightarrow> (Fatal ''Failed to save store: '' (Some err), w3)
                     | (None, w3) \<Rightarrow> (Return, Println ''PIN removed.'' w3)))))"

text \<open>
  The root command's \<^verbatim>\<open>PersistentPreRunE\<close>. It also replaces an empty \<^verbatim>\<open>fileFlag\<close>
  by the default, for the command that runs after it.
\<close>

definition PersistentPreRunE :: "lib \<Rightarrow> string \<Rightarrow> world \<Rightarrow> (error option \<times> string) \<times> world" where
  "PersistentPreRunE L fileFlag w =
     (let fileFlag' = (if fileFlag = [] then defaultSecretsFile else fileFlag) in
      case getOrCreateStaticKey L w of
        (Inl err, w1) \<Rightarrow> ((Some err, fileFlag'), w1)
      | (Inr key, w1) \<Rightarrow>
          (case loadStore L (expandPath L w1 fileFlag') key w1 of
             Inl err \<Rightarrow> ((Some err, fileFlag'), w1)
           | Inr store \<Rightarrow>
               (case requirePIN L store w1 of (r, w2) \<Rightarrow> ((r, fileFlag'), w2))))"

text \<open>
  \<^verbatim>\<open>rootCmd.Execute()\<close> for a parsed command line: cobra calls the root's
  \<^verbatim>\<open>PersistentPreRunE\<close> before the \<^verbatim>\<open>Run\<close> of whichever subcommand was chosen, and
  does not call \<^verbatim>\<open>Run\<close> when the hook returns an error.
\<close>

datatype command =
    CmdSet string string
  | CmdGet string
  | CmdDelete string
  | CmdList
  | CmdSetPin
  | CmdChangePin
  | CmdRemovePin

fun Run :: "lib \<Rightarrow> string \<Rightarrow> command \<Rightarrow> world \<Rightarrow> exit \<times> world" where
  "Run L fileFlag (CmdSet name val) w = setCmd L fileFlag name val w"
| "Run L fileFlag (CmdGet name) w = getCmd L fileFlag name w"
| "Run L fileFlag (CmdDelete name) w = deleteCmd L fileFlag name w"
| "Run L fileFlag CmdList w = listCmd L fileFlag w"
| "Run L fileFlag CmdSetPin w = setPinCmd L fileFlag w"
| "Run L fileFlag CmdChangePin w = changePinCmd L fileFlag w"
| "Run L fileFlag CmdRemovePin w = removePinCmd L fileFlag w"

definition Execute :: "lib \<Rightarrow> string \<Rightarrow> command \<Rightarrow> world \<Rightarrow> (error + exit) \<times> world" where
  "Execute L fileFlag cmd w =
     (case PersistentPreRunE L fileFlag w of
        ((Some err, fileFlag'), w1) \<Rightarrow> (Inl err, w1)
      | ((None, fileFlag'), w1) \<Rightarrow>
          (case Run L fileFlag' cmd w1 of (x, w2) \<Rightarrow> (Inr x, w2)))"

section \<open>What the libraries promise\<close>

text \<open>
  The properties of the libraries that the theorems below rely on, each stated as a
  predicate so that a theorem names the ones it uses.
  \<^item> An authenticated cipher opens what it sealed under the same key and nonce.
  \<^item> It rejects, under a different key, what was sealed under one key.
  \<^item> The JSON codec reads back the mapping it wrote (stated for one mapping).
  \<^item> A \<^verbatim>\<open>range\<close> over a map visits exactly its keys.
\<close>

definition aead_correct :: "lib \<Rightarrow> bool" where
  "aead_correct L =
     (\<forall>k n p. length k = KeySize \<longrightarrow> length n = NonceSizeX \<longrightarrow>
        aead_open L k n (aead_seal L k n p) = Some p)"


definition json_roundtrip :: "lib \<Rightarrow> SecretStore \<Rightarrow> bool" where
  "json_roundtrip L M =
     (case json_marshal L M of None \<Rightarrow> True | Some b \<Rightarrow> json_unmarshal L b = Some M)"

definition range_visits_keys :: "lib \<Rightarrow> SecretStore \<Rightarrow> bool" where
  "range_visits_keys L M = (set (map_range L M) = dom M)"

section \<open>A small instance of the libraries\<close>

text \<open>
  A stand-in for the libraries on which the functions above can be run: a cipher that
  marks the plaintext with the key, a codec for mappings over the two names \<open>pinKey\<close>
  and \<open>a\<close>, a password hash that is the password itself. It keeps the promises of the
  previous section and serves for the concrete runs below; nothing is proved about the
  real libraries through it.
\<close>

definition demo_seal :: "bytes \<Rightarrow> bytes \<Rightarrow> bytes \<Rightarrow> bytes" where
  "demo_seal k n p = k @ p"

definition demo_open :: "bytes \<Rightarrow> bytes \<Rightarrow> bytes \<Rightarrow> bytes option" where
  "demo_open k n c = (if take (length k) c = k then Some (drop (length k) c) else None)"

definition demo_field :: "SecretStore \<Rightarrow> string \<Rightarrow> string" where
  "demo_field M k = (case M k of None \<Rightarrow> ''-'' | Some v \<Rightarrow> CHR ''+'' # v)"

definition demo_parse :: "string \<Rightarrow> string option" where
  "demo_parse s = (case s of [] \<Rightarrow> None | c # v \<Rightarrow> if c = CHR ''+'' then Some v else None)"

definition demo_encode :: "SecretStore \<Rightarrow> bytes" where
  "demo_encode M = demo_field M pinKey @ '';'' @ demo_field M ''a''"

definition demo_marshal :: "SecretStore \<Rightarrow> bytes option" where
  "demo_marshal M = Some (demo_encode M)"

definition demo_unmarshal :: "bytes \<Rightarrow> SecretStore option" where
  "demo_unmarshal b =
     (let x = takeWhile (\<lambda>c. c \<noteq> CHR '';'') b;
          y = drop 1 (dropWhile (\<lambda>c. c \<noteq> CHR '';'') b)
      in Some (\<lambda>k. if k = pinKey then demo_parse x
                    else if k = ''a'' then demo_parse y else None))"

definition demo_generate :: "bytes \<Rightarrow> bytes \<Rightarrow> nat \<Rightarrow> bytes option" where
  "demo_generate password salt cost = Some password"

definition demo_compare :: "bytes \<Rightarrow> bytes \<Rightarrow> bool" where
  "demo_compare hash password = (hash = password)"

definition demo_join :: "string \<Rightarrow> string \<Rightarrow> string" where
  "demo_join a b = a @ b"

definition demo_range :: "SecretStore \<Rightarrow> string list" where
  "demo_range M = filter (\<lambda>k. M k \<noteq> None) [''a'', pinKey]"

definition demo_lib :: lib where
  "demo_lib =
     \<lparr>aead_seal = demo_seal, aead_open = demo_open,
      json_marshal = demo_marshal, json_unmarshal = demo_unmarshal,
      bcrypt_generate = demo_generate, bcrypt_compare = demo_compare,
      filepath_join = demo_join, map_range = demo_range\<rparr>"

definition demo_key :: bytes where
  "demo_key = replicate 32 (CHR ''k'')"


definition demo_nonce :: bytes where
  "demo_nonce = replicate 24 (CHR ''n'')"

definition demo_rng :: rand_src where
  "demo_rng = RandStream (\<lambda>i. CHR ''n'')"

definition demo_keyfile :: osfile where
  "demo_keyfile = \<lparr>content = demo_key, mode = 384\<rparr>"

text \<open>The vault file that holds a mapping: nonce, then the sealed serialisation.\<close>

definition demo_vault :: "SecretStore \<Rightarrow> osfile" where
  "demo_vault M =
     \<lparr>content = demo_nonce @ demo_seal demo_key demo_nonce (demo_encode M), mode = 384\<rparr>"

definition demo_world ::
  "(string \<rightharpoonup> osfile) \<Rightarrow> (error + string) list \<Rightarrow> string list \<Rightarrow> write_fault list \<Rightarrow> world" where
  "demo_world fs input output fl =
     \<lparr>files = fs, home = ''/h'', stdin = input, stdout = output, rng = demo_rng, faults = fl\<rparr>"

text \<open>A mapping with the PIN verifier of PIN \<open>1234\<close> and one secret.\<close>

definition demo_store :: SecretStore where
  "demo_store = [pinKey \<mapsto> ''1234'', ''a'' \<mapsto> ''s3cr3t'']"

definition demo_files :: "string \<rightharpoonup> osfile" where
  "demo_files = [''/h/.sec.key'' \<mapsto> demo_keyfile, ''/h/.sec.enc'' \<mapsto> demo_vault demo_store]"

section \<open>Basic facts\<close>

lemma length_first_bytes: "length (first_bytes g n) = n"
  by (simp add: first_bytes_def)

lemma rand_Read_length: "rand_Read n w = (Some bs, w') \<Longrightarrow> length bs = n"
  by (auto simp: rand_Read_def length_first_bytes split: rand_src.splits)

lemma encryptStore_Inr:
  assumes "fst (encryptStore L M K w) = Inr data"
  shows "length K = KeySize \<and>
         (\<exists>pt nonce. json_marshal L M = Some pt \<and> length nonce = NonceSizeX \<and>
                      data = nonce @ aead_seal L K nonce pt)"
  using assms
  by (auto simp: encryptStore_def NewX_def Seal_def split: if_splits option.splits prod.splits
      dest: rand_Read_length)

lemma decrypt_encrypt:
  assumes "aead_correct L" and "json_roundtrip L M"
      and "fst (encryptStore L M K w) = Inr data"
  shows "decryptStore L data K = Inr M"
proof -
  from encryptStore_Inr[OF assms(3)] obtain pt nonce where
    k: "length K = KeySize" and m: "json_marshal L M = Some pt" and n: "length nonce = NonceSizeX"
    and d: "data = nonce @ aead_seal L K nonce pt" by blast
  have "aead_open L K nonce (aead_seal L K nonce pt) = Some pt"
    using assms(1) k n by (simp add: aead_correct_def)
  moreover have "json_unmarshal L pt = Some M"
    using assms(2) m by (simp add: json_roundtrip_def)
  ultimately show ?thesis using k n d
    by (simp add: decryptStore_def NewX_def)
qed

lemma encryptStore_frame:
  "files (snd (encryptStore L M K w)) = files w \<and> faults (snd (encryptStore L M K w)) = faults w
   \<and> home (snd (encryptStore L M K w)) = home w \<and> stdin (snd (encryptStore L M K w)) = stdin w
   \<and> stdout (snd (encryptStore L M K w)) = stdout w"
  by (simp add: encryptStore_def rand_Read_def split: sum.splits option.splits rand_src.splits)

lemma WriteFile_fail_unchanged:
  assumes "fst (WriteFile path data perm w) \<noteq> None" and "\<And>n e. next_fault w \<noteq> FailWrite n e"
  shows "files (snd (WriteFile path data perm w)) = files w"
  using assms by (auto simp: WriteFile_def Let_def split: write_fault.splits option.splits if_splits)

subsection \<open>Running the small instance\<close>

lemma demo_world_sel:
  "files (demo_world fs i out fl) = fs" "home (demo_world fs i out fl) = ''/h''"
  "stdin (demo_world fs i out fl) = i" "stdout (demo_world fs i out fl) = out"
  "rng (demo_world fs i out fl) = demo_rng" "faults (demo_world fs i out fl) = fl"
  by (simp_all add: demo_world_def)

lemma demo_world_upd:
  "(demo_world fs i out fl)\<lparr>files := fs'\<rparr> = demo_world fs' i out fl"
  "(demo_world fs i out fl)\<lparr>stdin := i'\<rparr> = demo_world fs i' out fl"
  "(demo_world fs i out fl)\<lparr>stdout := out'\<rparr> = demo_world fs i out' fl"
  "(demo_world fs i out fl)\<lparr>faults := fl'\<rparr> = demo_world fs i out fl'"
  "(demo_world fs i out fl)\<lparr>rng := demo_rng\<rparr> = demo_world fs i out fl"
  by (simp_all add: demo_world_def)

lemmas demo_world_simps = demo_world_sel demo_world_upd

lemma demo_aead_correct: "aead_correct demo_lib"
  by (simp add: aead_correct_def demo_lib_def demo_seal_def demo_open_def)


lemma demo_json_store: "json_roundtrip demo_lib demo_store"
  by (simp add: json_roundtrip_def demo_lib_def demo_marshal_def demo_encode_def demo_field_def
      demo_store_def demo_unmarshal_def demo_parse_def pinKey_def fun_eq_iff)

lemma demo_rand_Read:
  "rand_Read n (demo_world fs i out fl) = (Some (replicate n (CHR ''n'')), demo_world fs i out fl)"
  by (simp add: rand_Read_def demo_world_def demo_rng_def first_bytes_def map_replicate_const)

lemma demo_expandPath:
  "expandPath demo_lib (demo_world fs i out fl) keyFile = ''/h/.sec.key''"
  "expandPath demo_lib (demo_world fs i out fl) defaultSecretsFile = ''/h/.sec.enc''"
  by (simp_all add: expandPath_def keyFile_def defaultSecretsFile_def demo_lib_def demo_world_def
      demo_join_def)

lemma demo_print:
  "Print s (demo_world fs i out fl) = demo_world fs i (out @ [s]) fl"
  "Println s (demo_world fs i out fl) = demo_world fs i (out @ [s @ nl]) fl"
  by (simp_all add: Print_def Println_def demo_world_simps)

lemma demo_encrypt:
  "encryptStore demo_lib M demo_key (demo_world fs i out fl)
     = (Inr (demo_nonce @ demo_key @ demo_encode M), demo_world fs i out fl)"
  by (simp add: encryptStore_def NewX_def KeySize_def NonceSizeX_def demo_key_def demo_rand_Read
      Seal_def demo_lib_def demo_marshal_def demo_seal_def demo_nonce_def)

lemma demo_vault_mode: "owner_writable (demo_vault M)" "owner_readable (demo_vault M)"
  by (simp_all add: demo_vault_def owner_writable_def owner_readable_def)

section \<open>The cipher\<close>





section \<open>The key file\<close>

text \<open>
  Claim C6. \<open>getOrCreateStaticKey\<close>, with \<open>kp\<close> the expanded path of the key file:
  when the file exists (and can be read) with exactly 32 bytes, it returns them and
  changes nothing; when the file does not exist (and the random source and the write
  work), it returns the next 32 random bytes and has created the file with them and
  mode 0600 (384: the owner may read and write, the group and others have no bit);
  when the file exists with another length, it fails with the key-file-length error and
  changes nothing.
\<close>

theorem getOrCreateStaticKey_cases:
  assumes "expandPath L w keyFile = kp"
  shows "(files w kp = Some f \<and> owner_readable f \<and> length (content f) = 32
            \<longrightarrow> getOrCreateStaticKey L w = (Inr (content f), w))
       \<and> (files w kp = None \<and> rng w = RandStream g \<and> next_fault w = NoFault
            \<longrightarrow> fst (getOrCreateStaticKey L w) = Inr (first_bytes g 32)
              \<and> length (first_bytes g 32) = 32
              \<and> files (snd (getOrCreateStaticKey L w))
                  = (files w)(kp \<mapsto> \<lparr>content = first_bytes g 32, mode = 384\<rparr>)
              \<and> owner_readable \<lparr>content = first_bytes g 32, mode = 384\<rparr>
              \<and> owner_writable \<lparr>content = first_bytes g 32, mode = 384\<rparr>
              \<and> (384::nat) mod 64 = 0)
       \<and> (files w kp = Some f \<and> owner_readable f \<and> length (content f) \<noteq> 32
            \<longrightarrow> getOrCreateStaticKey L w = (Inl InvalidKeyFileLength, w))"
  using assms[symmetric]
  by (simp add: getOrCreateStaticKey_def ReadFile_def IsNotExist_def rand_Read_def WriteFile_def
      next_fault_def Let_def length_first_bytes owner_readable_def owner_writable_def)

theorem getOrCreateStaticKey_cases_witness:
  "getOrCreateStaticKey demo_lib (demo_world demo_files [] [] [])
     = (Inr demo_key, demo_world demo_files [] [] [])
   \<and> fst (getOrCreateStaticKey demo_lib (demo_world Map.empty [] [] []))
       = Inr (first_bytes (\<lambda>i. CHR ''n'') 32)
   \<and> files (snd (getOrCreateStaticKey demo_lib (demo_world Map.empty [] [] [])))
       = [''/h/.sec.key'' \<mapsto> \<lparr>content = first_bytes (\<lambda>i. CHR ''n'') 32, mode = 384\<rparr>]
   \<and> getOrCreateStaticKey demo_lib
         (demo_world [''/h/.sec.key'' \<mapsto> \<lparr>content = ''short'', mode = 384\<rparr>] [] [] [])
       = (Inl InvalidKeyFileLength,
          demo_world [''/h/.sec.key'' \<mapsto> \<lparr>content = ''short'', mode = 384\<rparr>] [] [] [])"
proof -
  have r: "owner_readable demo_keyfile" "length (content demo_keyfile) = 32"
    by (simp_all add: demo_keyfile_def owner_readable_def demo_key_def)
  have f1: "files (demo_world demo_files [] [] []) ''/h/.sec.key'' = Some demo_keyfile"
    by (simp add: demo_world_def demo_files_def)
  have a: "getOrCreateStaticKey demo_lib (demo_world demo_files [] [] [])
             = (Inr demo_key, demo_world demo_files [] [] [])"
    using getOrCreateStaticKey_cases[where L = demo_lib and w = "demo_world demo_files [] [] []"
          and kp = "''/h/.sec.key''" and f = demo_keyfile] r f1
    by (simp add: demo_expandPath demo_keyfile_def)
  have e: "files (demo_world Map.empty [] [] []) ''/h/.sec.key'' = None"
          "rng (demo_world Map.empty [] [] []) = RandStream (\<lambda>i. CHR ''n'')"
          "next_fault (demo_world Map.empty [] [] []) = NoFault"
    by (simp_all add: demo_world_def demo_rng_def next_fault_def)
  have b: "fst (getOrCreateStaticKey demo_lib (demo_world Map.empty [] [] []))
             = Inr (first_bytes (\<lambda>i. CHR ''n'') 32)
     \<and> files (snd (getOrCreateStaticKey demo_lib (demo_world Map.empty [] [] [])))
        = [''/h/.sec.key'' \<mapsto> \<lparr>content = first_bytes (\<lambda>i. CHR ''n'') 32, mode = 384\<rparr>]"
    using getOrCreateStaticKey_cases[where L = demo_lib and w = "demo_world Map.empty [] [] []"
          and kp = "''/h/.sec.key''" and g = "\<lambda>i. CHR ''n''"] e
    by (simp add: demo_expandPath) (simp add: demo_world_def)
  let ?w = "demo_world [''/h/.sec.key'' \<mapsto> \<lparr>content = ''short'', mode = 384\<rparr>] [] [] []"
  have s: "files ?w ''/h/.sec.key'' = Some \<lparr>content = ''short'', mode = 384\<rparr>"
          "owner_readable \<lparr>content = ''short'', mode = 384\<rparr>"
    by (simp_all add: demo_world_def owner_readable_def)
  have c: "getOrCreateStaticKey demo_lib ?w = (Inl InvalidKeyFileLength, ?w)"
    using getOrCreateStaticKey_cases[where L = demo_lib and w = ?w and kp = "''/h/.sec.key''"
          and f = "\<lparr>content = ''short'', mode = 384\<rparr>"] s
    by (simp add: demo_expandPath)
  show ?thesis using a b c by simp
qed

section \<open>The vault file\<close>

text \<open>
  Claim C8. Where no vault file exists at the path, \<open>loadStore\<close> returns the empty
  mapping and no error.
\<close>

theorem loadStore_missing_file:
  "files w path = None \<Longrightarrow> loadStore L path key w = Inr Map.empty"
  by (simp add: loadStore_def ReadFile_def IsNotExist_def)

theorem loadStore_missing_file_witness:
  "loadStore demo_lib ''/h/.sec.enc'' demo_key (demo_world Map.empty [] [] []) = Inr Map.empty"
  using loadStore_missing_file[of "demo_world Map.empty [] [] []" "''/h/.sec.enc''" demo_lib demo_key]
  by (simp add: demo_world_def)

text \<open>
  Claim C2, as stated: if \<open>saveStore\<close> fails at any point, the vault file that was
  there is unchanged. It is false: \<open>saveStore\<close> writes the destination in place with
  \<^verbatim>\<open>ioutil.WriteFile\<close>, which truncates the file before writing. Here the write
  fails (no space left) before any byte is written, \<open>saveStore\<close> returns the error,
  and the vault file, which held a mapping, is left empty.
\<close>

theorem saveStore_failure_truncates:
  "fst (saveStore demo_lib ''/h/.sec.enc'' demo_store demo_key
          (demo_world demo_files [] [] [FailWrite 0 ENOSPC])) = Some (Os ENOSPC)
   \<and> files (snd (saveStore demo_lib ''/h/.sec.enc'' demo_store demo_key
                   (demo_world demo_files [] [] [FailWrite 0 ENOSPC]))) ''/h/.sec.enc''
       = Some \<lparr>content = [], mode = 384\<rparr>
   \<and> files (demo_world demo_files [] [] [FailWrite 0 ENOSPC]) ''/h/.sec.enc''
       = Some (demo_vault demo_store)
   \<and> demo_vault demo_store \<noteq> \<lparr>content = [], mode = 384\<rparr>"
  by (simp add: saveStore_def demo_encrypt WriteFile_def next_fault_def demo_world_simps
        demo_files_def demo_vault_mode Let_def)
     (simp add: demo_vault_def demo_nonce_def)

text \<open>
  Claim C2, amended: if \<open>saveStore\<close> fails before it starts writing (encryption fails,
  or the destination cannot be opened), every file is as it was before; a failure is
  always reported by an error. A failure in the middle of the write is excluded by the
  second hypothesis.
\<close>

theorem saveStore_failure_before_write:
  assumes "fst (saveStore L path M key w) \<noteq> None"
      and "\<forall>n e. next_fault w \<noteq> FailWrite n e"
  shows "files (snd (saveStore L path M key w)) = files w"
proof (cases "encryptStore L M key w")
  case (Pair r w1)
  have f: "files w1 = files w" "faults w1 = faults w"
    using encryptStore_frame[of L M key w] Pair by simp_all
  show ?thesis
  proof (cases r)
    case (Inl e)
    then show ?thesis using Pair f by (simp add: saveStore_def)
  next
    case (Inr data)
    have nf: "\<And>n e. next_fault w1 \<noteq> FailWrite n e"
      using assms(2) f by (simp add: next_fault_def)
    have "fst (WriteFile path data 384 w1) \<noteq> None"
      using assms(1) Pair Inr by (simp add: saveStore_def)
    from WriteFile_fail_unchanged[OF this nf] show ?thesis
      using Pair Inr f by (simp add: saveStore_def)
  qed
qed

theorem saveStore_failure_before_write_witness:
  "fst (saveStore demo_lib ''/h/.sec.enc'' Map.empty demo_key
          (demo_world demo_files [] [] [FailOpen EACCES])) \<noteq> None
   \<and> files (snd (saveStore demo_lib ''/h/.sec.enc'' Map.empty demo_key
                   (demo_world demo_files [] [] [FailOpen EACCES]))) = demo_files"
proof -
  have a: "fst (saveStore demo_lib ''/h/.sec.enc'' Map.empty demo_key
                  (demo_world demo_files [] [] [FailOpen EACCES])) \<noteq> None"
    by (simp add: saveStore_def demo_encrypt WriteFile_def next_fault_def demo_world_simps
        demo_files_def demo_vault_mode Let_def)
  have b: "\<forall>n e. next_fault (demo_world demo_files [] [] [FailOpen EACCES]) \<noteq> FailWrite n e"
    by (simp add: next_fault_def demo_world_simps)
  show ?thesis using saveStore_failure_before_write[OF a b] a by (simp add: demo_world_simps)
qed

section \<open>PIN check\<close>



lemma stdin_Println [simp]: "stdin (Println s w) = stdin w"
  by (simp add: Println_def)



text \<open>
  The \<^verbatim>\<open>requirePIN\<close> of sec.go (the variant that also has the PIN commands) asks once:
  one wrong PIN is the error \<open>IncorrectPIN\<close>.
\<close>

lemma requirePIN_single_attempt:
  assumes "store pinKey = Some h" and "stdin w = Inr pin # rest"
      and "\<not> bcrypt_compare L h pin"
  shows "requirePIN L store w = (Some IncorrectPIN, (Print ''Enter PIN: '' w)\<lparr>stdin := rest\<rparr>)"
  using assms by (simp add: requirePIN_def promptPIN_def Scan_def Print_def)

text \<open>
  \<^verbatim>\<open>setPIN\<close> of store.go does not look for an existing verifier: it stores the hash of
  the PIN it read. The check for an existing verifier is in the \<^verbatim>\<open>set-pin\<close> command.
\<close>

lemma store_setPIN_overwrites:
  assumes "stdin w = Inr pin # rest" and "rng w = RandStream g"
      and "bcrypt_generate L pin (first_bytes g 16) DefaultCost = Some h'"
  shows "fst (store_setPIN L store w) = (None, store(pinKey \<mapsto> h'))"
  using assms
  by (simp add: store_setPIN_def store_promptPIN_def Print_def Println_def Let_def
      GenerateFromPassword_def rand_Read_def)



section \<open>Frame facts and the vault file read back\<close>

lemma promptPIN_frame:
  "files (snd (promptPIN w)) = files w" "home (snd (promptPIN w)) = home w"
  "rng (snd (promptPIN w)) = rng w" "faults (snd (promptPIN w)) = faults w"
  by (simp_all add: promptPIN_def Scan_def Print_def split: list.splits sum.splits)

lemma requirePIN_frame:
  "files (snd (requirePIN L store w)) = files w" "home (snd (requirePIN L store w)) = home w"
  "rng (snd (requirePIN L store w)) = rng w" "faults (snd (requirePIN L store w)) = faults w"
  using promptPIN_frame[of w]
  by (auto simp: requirePIN_def split: option.splits prod.splits sum.splits)

lemma getOrCreateStaticKey_frame:
  "home (snd (getOrCreateStaticKey L w)) = home w"
  "stdin (snd (getOrCreateStaticKey L w)) = stdin w"
  "stdout (snd (getOrCreateStaticKey L w)) = stdout w"
  by (simp_all add: getOrCreateStaticKey_def rand_Read_def WriteFile_def Let_def
      split: sum.splits option.splits rand_src.splits write_fault.splits)

lemma WriteFile_ok:
  assumes "WriteFile path data perm w = (None, w')"
  shows "files w' = (files w)(path \<mapsto>
           \<lparr>content = data, mode = (case files w path of None \<Rightarrow> perm | Some f \<Rightarrow> mode f)\<rparr>)
         \<and> home w' = home w"
  using assms by (auto simp: WriteFile_def Let_def split: write_fault.splits if_splits)

text \<open>What a successful save leaves behind can be loaded again.\<close>

lemma load_after_save:
  assumes s: "saveStore L path M key w = (None, w')"
      and a: "aead_correct L" and j: "json_roundtrip L M"
      and r: "case files w path of None \<Rightarrow> True | Some f \<Rightarrow> owner_readable f"
  shows "loadStore L path key w' = Inr M"
proof -
  obtain x w1 where e: "encryptStore L M key w = (x, w1)" by (cases "encryptStore L M key w")
  from s e obtain data where x: "x = Inr data" and wf: "WriteFile path data 384 w1 = (None, w')"
    by (cases x) (simp_all add: saveStore_def)
  have d: "decryptStore L data key = Inr M"
    using decrypt_encrypt[OF a j, of key w data] e x by simp
  have f1: "files w1 = files w" using encryptStore_frame[of L M key w] e by simp
  from WriteFile_ok[OF wf] have
    fw: "files w' path = Some \<lparr>content = data,
           mode = (case files w path of None \<Rightarrow> 384 | Some f \<Rightarrow> mode f)\<rparr>"
    by (simp add: f1)
  have "owner_readable \<lparr>content = data,
           mode = (case files w path of None \<Rightarrow> 384 | Some f \<Rightarrow> mode f)\<rparr>"
    using r by (simp add: owner_readable_def split: option.splits)
  then show ?thesis using fw d by (simp add: loadStore_def ReadFile_def)
qed

lemma loadStore_readable:
  assumes "loadStore L path key w = Inr store"
  shows "case files w path of None \<Rightarrow> True | Some f \<Rightarrow> owner_readable f"
  using assms by (auto simp: loadStore_def ReadFile_def IsNotExist_def split: option.splits if_splits)

lemma list_loop_stdout:
  "stdout (list_loop ks w) = stdout w @ map (\<lambda>k. k @ nl) (filter (\<lambda>k. k \<noteq> pinKey) ks)"
  by (induction ks arbitrary: w) (simp_all add: Println_def)

lemma loadStore_files: "files w' = files w \<Longrightarrow> loadStore L p key w' = loadStore L p key w"
  by (simp add: loadStore_def ReadFile_def)

lemma setCmd_saved:
  assumes k: "getOrCreateStaticKey L w = (Inr key, w1)"
      and l: "loadStore L (expandPath L w1 fileFlag) key w1 = Inr store"
      and ok: "fst (setCmd L fileFlag name val w) = Return"
      and a: "aead_correct L" and j: "json_roundtrip L (store(name \<mapsto> val))"
  shows "loadStore L (expandPath L w1 fileFlag) key (snd (setCmd L fileFlag name val w))
           = Inr (store(name \<mapsto> val))"
proof -
  let ?p = "expandPath L w1 fileFlag"
  obtain r w2 where s: "saveStore L ?p (store(name \<mapsto> val)) key w1 = (r, w2)"
    by (cases "saveStore L ?p (store(name \<mapsto> val)) key w1")
  from ok k l s have r: "r = None" and w: "snd (setCmd L fileFlag name val w) = Println ''Secret set.'' w2"
    by (auto simp: setCmd_def split: option.splits)
  have "loadStore L ?p key w2 = Inr (store(name \<mapsto> val))"
    using load_after_save[OF _ a j loadStore_readable[OF l]] s r by simp
  then show ?thesis by (simp add: w loadStore_def ReadFile_def Println_def)
qed

lemma deleteCmd_saved:
  assumes k: "getOrCreateStaticKey L w = (Inr key, w1)"
      and l: "loadStore L (expandPath L w1 fileFlag) key w1 = Inr store"
      and ok: "fst (deleteCmd L fileFlag name w) = Return"
      and a: "aead_correct L" and j: "json_roundtrip L (store(name := None))"
  shows "loadStore L (expandPath L w1 fileFlag) key (snd (deleteCmd L fileFlag name w))
           = Inr (store(name := None))"
proof -
  let ?p = "expandPath L w1 fileFlag"
  obtain r w2 where s: "saveStore L ?p (store(name := None)) key w1 = (r, w2)"
    by (cases "saveStore L ?p (store(name := None)) key w1")
  from ok k l s have r: "r = None" and w: "snd (deleteCmd L fileFlag name w) = Println ''Secret deleted.'' w2"
    by (auto simp: deleteCmd_def split: option.splits)
  have "loadStore L ?p key w2 = Inr (store(name := None))"
    using load_after_save[OF _ a j loadStore_readable[OF l]] s r by simp
  then show ?thesis by (simp add: w loadStore_def ReadFile_def Println_def)
qed

lemma changePinCmd_saved:
  assumes k: "getOrCreateStaticKey L w = (Inr key, w1)"
      and l: "loadStore L (expandPath L w1 fileFlag) key w1 = Inr store"
      and p: "store pinKey = Some h"
      and i: "stdin w1 = Inr old # Inr new # rest"
      and g: "rng w1 = RandStream g"
      and b: "bcrypt_generate L new (first_bytes g 16) DefaultCost = Some h'"
      and a: "aead_correct L" and j: "json_roundtrip L (store(pinKey \<mapsto> h'))"
      and ok: "fst (changePinCmd L fileFlag w) = Return"
  shows "loadStore L (expandPath L w1 fileFlag) key (snd (changePinCmd L fileFlag w))
           = Inr (store(pinKey \<mapsto> h'))
       \<and> last (stdout (snd (changePinCmd L fileFlag w))) = ''PIN changed.'' @ nl"
proof -
  let ?p = "expandPath L w1 fileFlag"
  define w2 where "w2 = (Print ''Enter PIN: '' w1)\<lparr>stdin := Inr new # rest\<rparr>"
  define w3 where "w3 = (Print ''Enter new PIN: '' w2)\<lparr>stdin := rest\<rparr>"
  define w4 where "w4 = w3\<lparr>rng := RandStream (\<lambda>i. g (i + 16))\<rparr>"
  have rp: "requirePIN L store w1
      = (if bcrypt_compare L h old then None else Some IncorrectPIN, w2)"
    using p i by (simp add: requirePIN_def promptPIN_def Scan_def Print_def w2_def)
  have sc: "Scan (Print ''Enter new PIN: '' w2) = (Line new, w3)"
    by (simp add: Scan_def Print_def w2_def w3_def)
  have gp: "GenerateFromPassword L new DefaultCost w3 = (Inr h', w4)"
    using g b by (simp add: GenerateFromPassword_def rand_Read_def w4_def w3_def w2_def Print_def)
  have hm: "expandPath L w4 fileFlag = ?p"
    by (simp add: expandPath_def w4_def w3_def w2_def Print_def)
  have fl: "files w4 = files w1"
    by (simp add: w4_def w3_def w2_def Print_def)
  obtain r w5 where s: "saveStore L ?p (store(pinKey \<mapsto> h')) key w4 = (r, w5)"
    by (cases "saveStore L ?p (store(pinKey \<mapsto> h')) key w4")
  from ok k l rp sc gp hm s have r: "r = None"
    and w: "snd (changePinCmd L fileFlag w) = Println ''PIN changed.'' w5"
    by (auto simp: changePinCmd_def split: option.splits if_splits)
  have rd: "case files w4 ?p of None \<Rightarrow> True | Some f \<Rightarrow> owner_readable f"
    using loadStore_readable[OF l] by (simp add: fl)
  have "loadStore L ?p key w5 = Inr (store(pinKey \<mapsto> h'))"
    using load_after_save[OF _ a j rd] s r by simp
  then show ?thesis by (simp add: w loadStore_def ReadFile_def Println_def)
qed

subsection \<open>More runs of the small instance\<close>

lemma demo_files_getKey:
  "getOrCreateStaticKey demo_lib (demo_world demo_files i out fl)
     = (Inr demo_key, demo_world demo_files i out fl)"
  by (simp add: getOrCreateStaticKey_def demo_expandPath ReadFile_def demo_world_simps
      demo_files_def demo_keyfile_def owner_readable_def demo_key_def)

lemma demo_decrypt:
  "json_roundtrip demo_lib M \<Longrightarrow>
   decryptStore demo_lib (demo_nonce @ demo_key @ demo_encode M) demo_key = Inr M"
  using decrypt_encrypt[OF demo_aead_correct, of M demo_key "demo_world Map.empty [] [] []"]
  by (simp add: demo_encrypt)

lemma demo_files_load:
  "loadStore demo_lib ''/h/.sec.enc'' demo_key (demo_world demo_files i out fl) = Inr demo_store"
  using demo_decrypt[OF demo_json_store]
  by (simp add: loadStore_def ReadFile_def demo_world_simps demo_files_def demo_vault_def
      owner_readable_def demo_seal_def)

lemma demo_requirePIN:
  "requirePIN demo_lib demo_store (demo_world fs (Inr pin # r) out fl)
     = (if ''1234'' = pin then None else Some IncorrectPIN,
        demo_world fs r (out @ [''Enter PIN: '']) fl)"
  by (simp add: requirePIN_def demo_store_def pinKey_def promptPIN_def Scan_def demo_print
      demo_world_simps demo_lib_def demo_compare_def)

lemma demo_saveStore:
  "fs p = Some f \<Longrightarrow> owner_writable f \<Longrightarrow>
   saveStore demo_lib p M demo_key (demo_world fs i out [])
     = (None, demo_world (fs(p \<mapsto> \<lparr>content = demo_nonce @ demo_key @ demo_encode M, mode = mode f\<rparr>)) i out [])"
  by (simp add: saveStore_def demo_encrypt WriteFile_def demo_world_simps next_fault_def Let_def)

lemma demo_files_vault:
  "demo_files ''/h/.sec.enc'' = Some (demo_vault demo_store)"
  by (simp add: demo_files_def)

lemma demo_store_pin: "demo_store pinKey = Some ''1234''"
  by (simp add: demo_store_def pinKey_def)

lemma demo_json_pin: "json_roundtrip demo_lib (demo_store(pinKey \<mapsto> ''5678''))"
  by (simp add: json_roundtrip_def demo_lib_def demo_marshal_def demo_encode_def demo_field_def
      demo_store_def demo_unmarshal_def demo_parse_def pinKey_def fun_eq_iff)

lemma demo_json_nopin: "json_roundtrip demo_lib (demo_store(pinKey := None))"
  by (simp add: json_roundtrip_def demo_lib_def demo_marshal_def demo_encode_def demo_field_def
      demo_store_def demo_unmarshal_def demo_parse_def pinKey_def fun_eq_iff)

lemma demo_range_store: "range_visits_keys demo_lib demo_store"
  by (auto simp: range_visits_keys_def demo_lib_def demo_range_def demo_store_def pinKey_def)

lemma demo_store_absent: "demo_store ''zz'' = None"
  by (simp add: demo_store_def pinKey_def)

lemma demo_files_saveStore:
  "saveStore demo_lib ''/h/.sec.enc'' M demo_key (demo_world demo_files i out [])
     = (None, demo_world
          (demo_files(''/h/.sec.enc'' \<mapsto> \<lparr>content = demo_nonce @ demo_key @ demo_encode M, mode = 384\<rparr>))
          i out [])"
  using demo_saveStore[of demo_files "''/h/.sec.enc''" "demo_vault demo_store" M i out]
  by (simp add: demo_files_vault demo_vault_mode) (simp add: demo_vault_def)

lemma demo_setCmd:
  "setCmd demo_lib defaultSecretsFile name val (demo_world demo_files [] [] [])
     = (Return, demo_world
          (demo_files(''/h/.sec.enc'' \<mapsto>
             \<lparr>content = demo_nonce @ demo_key @ demo_encode (demo_store(name \<mapsto> val)),
              mode = 384\<rparr>))
          [] [''Secret set.'' @ nl] [])"
  by (simp add: setCmd_def demo_files_getKey demo_expandPath demo_files_load
      demo_files_saveStore demo_print)

lemma demo_deleteCmd:
  "deleteCmd demo_lib defaultSecretsFile name (demo_world demo_files [] [] [])
     = (Return, demo_world
          (demo_files(''/h/.sec.enc'' \<mapsto>
             \<lparr>content = demo_nonce @ demo_key @ demo_encode (demo_store(name := None)),
              mode = 384\<rparr>))
          [] [''Secret deleted.'' @ nl] [])"
  by (simp add: deleteCmd_def demo_files_getKey demo_expandPath demo_files_load
      demo_files_saveStore demo_print)

lemma demo_generate_eval:
  "GenerateFromPassword demo_lib pin cost (demo_world fs i out fl) = (Inr pin, demo_world fs i out fl)"
  by (simp add: GenerateFromPassword_def demo_rand_Read demo_lib_def demo_generate_def)

lemma demo_Scan:
  "Scan (demo_world fs (Inr l # r) out fl) = (Line l, demo_world fs r out fl)"
  by (simp add: Scan_def demo_world_simps)

lemma demo_changePinCmd:
  "changePinCmd demo_lib defaultSecretsFile (demo_world demo_files [Inr ''1234'', Inr new] [] [])
     = (Return, demo_world
          (demo_files(''/h/.sec.enc'' \<mapsto>
             \<lparr>content = demo_nonce @ demo_key @ demo_encode (demo_store(pinKey \<mapsto> new)),
              mode = 384\<rparr>))
          [] [''Enter PIN: '', ''Enter new PIN: '', ''PIN changed.'' @ nl] [])"
  by (simp add: changePinCmd_def demo_files_getKey demo_expandPath demo_files_load demo_requirePIN
      demo_print demo_Scan demo_generate_eval
      demo_files_saveStore)

section \<open>Commands\<close>

text \<open>
  Claim C9. With the key and the mapping loaded, and a \<^verbatim>\<open>range\<close> that visits exactly
  the keys of the mapping, \<open>listCmd\<close> prints one line per visited name other than
  \<open>pinKey\<close>: the sentinel is never among the printed names, and every other key of
  the mapping is.
\<close>

theorem listCmd_excludes_pinKey:
  assumes "getOrCreateStaticKey L w = (Inr key, w1)"
      and "loadStore L (expandPath L w1 fileFlag) key w1 = Inr store"
      and "range_visits_keys L store"
  shows "fst (listCmd L fileFlag w) = Return
       \<and> stdout (snd (listCmd L fileFlag w))
           = stdout w @ map (\<lambda>k. k @ nl) (filter (\<lambda>k. k \<noteq> pinKey) (map_range L store))
       \<and> pinKey \<notin> set (filter (\<lambda>k. k \<noteq> pinKey) (map_range L store))
       \<and> (\<forall>k. store k \<noteq> None \<and> k \<noteq> pinKey
              \<longrightarrow> k \<in> set (filter (\<lambda>k. k \<noteq> pinKey) (map_range L store)))"
proof -
  have o: "stdout w1 = stdout w" using getOrCreateStaticKey_frame(3)[of L w] assms(1) by simp
  have "listCmd L fileFlag w = (Return, list_loop (map_range L store) w1)"
    using assms(1,2) by (simp add: listCmd_def)
  moreover have "set (map_range L store) = dom store"
    using assms(3) by (simp add: range_visits_keys_def)
  ultimately show ?thesis by (auto simp: list_loop_stdout o)
qed

theorem listCmd_excludes_pinKey_witness:
  "fst (listCmd demo_lib defaultSecretsFile (demo_world demo_files [] [] [])) = Return
   \<and> stdout (snd (listCmd demo_lib defaultSecretsFile (demo_world demo_files [] [] [])))
       = [''a'' @ nl]"
proof -
  let ?w = "demo_world demo_files [] [] []"
  have l: "loadStore demo_lib (expandPath demo_lib ?w defaultSecretsFile) demo_key ?w = Inr demo_store"
    by (simp only: demo_expandPath demo_files_load)
  have m: "map_range demo_lib demo_store = [''a'', pinKey]"
    by (simp add: demo_lib_def demo_range_def demo_store_def pinKey_def)
  have n: "''a'' \<noteq> pinKey" by (simp add: pinKey_def)
  have o: "stdout ?w = []" by (simp add: demo_world_sel)
  show ?thesis
    using listCmd_excludes_pinKey[OF demo_files_getKey l demo_range_store] n
    by (simp only: m o) simp
qed

text \<open>
  Claim C10. With the key and a mapping holding the verifier \<open>h\<close> loaded: \<open>getCmd\<close>
  with the sentinel name prints \<open>h\<close>; \<open>getCmd\<close> with an absent name prints the empty
  string; after a successful \<open>setCmd\<close> with the sentinel name and value \<open>v\<close> the vault
  holds the mapping with the verifier replaced by \<open>v\<close>; after a successful
  \<open>deleteCmd\<close> with the sentinel name the vault holds the mapping without the verifier;
  \<open>listCmd\<close> prints the visited names other than the sentinel. (Reading the vault
  back relies on the cipher and the codec keeping their promises.)
\<close>

theorem sentinel_is_ordinary_entry:
  assumes k: "getOrCreateStaticKey L w = (Inr key, w1)"
      and l: "loadStore L (expandPath L w1 fileFlag) key w1 = Inr store"
      and p: "store pinKey = Some h"
  shows "getCmd L fileFlag pinKey w = (Return, Println h w1)
       \<and> (store name = None \<longrightarrow> getCmd L fileFlag name w = (Return, Println [] w1))
       \<and> (aead_correct L \<and> json_roundtrip L (store(pinKey \<mapsto> v))
            \<and> fst (setCmd L fileFlag pinKey v w) = Return
          \<longrightarrow> loadStore L (expandPath L w1 fileFlag) key (snd (setCmd L fileFlag pinKey v w))
                = Inr (store(pinKey \<mapsto> v)))
       \<and> (aead_correct L \<and> json_roundtrip L (store(pinKey := None))
            \<and> fst (deleteCmd L fileFlag pinKey w) = Return
          \<longrightarrow> loadStore L (expandPath L w1 fileFlag) key (snd (deleteCmd L fileFlag pinKey w))
                = Inr (store(pinKey := None)))
       \<and> stdout (snd (listCmd L fileFlag w))
           = stdout w @ map (\<lambda>k. k @ nl) (filter (\<lambda>k. k \<noteq> pinKey) (map_range L store))"
proof -
  have g1: "getCmd L fileFlag pinKey w = (Return, Println h w1)"
    using k l p by (simp add: getCmd_def)
  have g2: "store name = None \<longrightarrow> getCmd L fileFlag name w = (Return, Println [] w1)"
    using k l by (simp add: getCmd_def)
  have o: "stdout w1 = stdout w" using getOrCreateStaticKey_frame(3)[of L w] k by simp
  have ls: "stdout (snd (listCmd L fileFlag w))
           = stdout w @ map (\<lambda>k. k @ nl) (filter (\<lambda>k. k \<noteq> pinKey) (map_range L store))"
    using k l by (simp add: listCmd_def list_loop_stdout o)
  show ?thesis
    using g1 g2 ls setCmd_saved[OF k l] deleteCmd_saved[OF k l] by blast
qed

theorem sentinel_is_ordinary_entry_witness:
  "getCmd demo_lib defaultSecretsFile pinKey (demo_world demo_files [] [] [])
     = (Return, Println ''1234'' (demo_world demo_files [] [] []))
   \<and> getCmd demo_lib defaultSecretsFile ''zz'' (demo_world demo_files [] [] [])
     = (Return, Println [] (demo_world demo_files [] [] []))
   \<and> loadStore demo_lib ''/h/.sec.enc'' demo_key
        (snd (setCmd demo_lib defaultSecretsFile pinKey ''5678'' (demo_world demo_files [] [] [])))
     = Inr (demo_store(pinKey \<mapsto> ''5678''))
   \<and> loadStore demo_lib ''/h/.sec.enc'' demo_key
        (snd (deleteCmd demo_lib defaultSecretsFile pinKey (demo_world demo_files [] [] [])))
     = Inr (demo_store(pinKey := None))"
proof -
  let ?w = "demo_world demo_files [] [] []"
  have l: "loadStore demo_lib (expandPath demo_lib ?w defaultSecretsFile) demo_key ?w = Inr demo_store"
    by (simp only: demo_expandPath demo_files_load)
  have s: "fst (setCmd demo_lib defaultSecretsFile pinKey ''5678'' ?w) = Return"
    by (simp only: demo_setCmd fst_conv)
  have d: "fst (deleteCmd demo_lib defaultSecretsFile pinKey ?w) = Return"
    by (simp only: demo_deleteCmd fst_conv)
  show ?thesis
    using sentinel_is_ordinary_entry[OF demo_files_getKey l demo_store_pin, of "''zz''" "''5678''"]
          demo_store_absent demo_aead_correct demo_json_pin demo_json_nopin s d
    by (simp only: demo_expandPath)
qed

text \<open>
  Claim C5. With the key and a mapping holding a verifier loaded, \<open>setPinCmd\<close> prints
  that the PIN is already set and returns: no file changes and the vault still holds
  the same mapping. The change path does not stop this way: when \<open>changePinCmd\<close>
  succeeds, after reading the current PIN \<open>old\<close> and the new PIN \<open>new\<close>, the vault
  holds the mapping with the verifier replaced by the hash \<open>h'\<close> of \<open>new\<close>, and the last
  line printed is \<open>PIN changed.\<close>
\<close>

theorem setPinCmd_pin_already_set:
  assumes k: "getOrCreateStaticKey L w = (Inr key, w1)"
      and l: "loadStore L (expandPath L w1 fileFlag) key w1 = Inr store"
      and p: "store pinKey = Some h"
  shows "setPinCmd L fileFlag w
           = (Return, Println ''PIN already set. Use change-pin or remove-pin instead.'' w1)
       \<and> files (snd (setPinCmd L fileFlag w)) = files w1
       \<and> loadStore L (expandPath L w1 fileFlag) key (snd (setPinCmd L fileFlag w)) = Inr store
       \<and> (stdin w1 = Inr old # Inr new # rest \<and> rng w1 = RandStream g
            \<and> bcrypt_generate L new (first_bytes g 16) DefaultCost = Some h'
            \<and> aead_correct L \<and> json_roundtrip L (store(pinKey \<mapsto> h'))
            \<and> fst (changePinCmd L fileFlag w) = Return
          \<longrightarrow> loadStore L (expandPath L w1 fileFlag) key (snd (changePinCmd L fileFlag w))
                = Inr (store(pinKey \<mapsto> h'))
            \<and> last (stdout (snd (changePinCmd L fileFlag w))) = ''PIN changed.'' @ nl)"
proof -
  have s: "setPinCmd L fileFlag w
           = (Return, Println ''PIN already set. Use change-pin or remove-pin instead.'' w1)"
    using k l p by (simp add: setPinCmd_def)
  have f: "files (Println ''PIN already set. Use change-pin or remove-pin instead.'' w1) = files w1"
    by (simp add: Println_def)
  show ?thesis
    using s f l changePinCmd_saved[OF k l p] by (simp add: loadStore_files[OF f])
qed

theorem setPinCmd_pin_already_set_witness:
  "setPinCmd demo_lib defaultSecretsFile (demo_world demo_files [Inr ''1234'', Inr ''5678''] [] [])
     = (Return, Println ''PIN already set. Use change-pin or remove-pin instead.''
          (demo_world demo_files [Inr ''1234'', Inr ''5678''] [] []))
   \<and> loadStore demo_lib ''/h/.sec.enc'' demo_key
        (snd (changePinCmd demo_lib defaultSecretsFile
               (demo_world demo_files [Inr ''1234'', Inr ''5678''] [] [])))
     = Inr (demo_store(pinKey \<mapsto> ''5678''))"
proof -
  let ?w = "demo_world demo_files [Inr ''1234'', Inr ''5678''] [] []"
  have l: "loadStore demo_lib (expandPath demo_lib ?w defaultSecretsFile) demo_key ?w = Inr demo_store"
    by (simp only: demo_expandPath demo_files_load)
  have i: "stdin ?w = [Inr ''1234'', Inr ''5678'']" by (simp add: demo_world_sel)
  have g: "rng ?w = RandStream (\<lambda>i. CHR ''n'')" by (simp add: demo_world_sel demo_rng_def)
  have b: "bcrypt_generate demo_lib ''5678'' (first_bytes (\<lambda>i. CHR ''n'') 16) DefaultCost = Some ''5678''"
    by (simp add: demo_lib_def demo_generate_def)
  have c: "fst (changePinCmd demo_lib defaultSecretsFile ?w) = Return"
    by (simp only: demo_changePinCmd fst_conv)
  show ?thesis
    using setPinCmd_pin_already_set[OF demo_files_getKey l demo_store_pin, of "''1234''" "''5678''" "[]" "\<lambda>i. CHR ''n''" "''5678''"]
          i g b c demo_aead_correct demo_json_pin
    by (simp only: demo_expandPath)
qed

text \<open>
  Claim C4. With the key and a mapping holding a verifier loaded, and a PIN check that
  fails with error \<open>e\<close>: \<open>changePinCmd\<close> and \<open>removePinCmd\<close> end with
  \<open>Authentication failed\<close> and leave every file as it was; and \<open>Execute\<close> of any
  command stops in the root command's hook with \<open>e\<close>, leaves every file as it was, and
  the vault still holds the same mapping. So the verifier changes only after a
  successful check.
\<close>

theorem verifier_change_requires_verify:
  assumes f: "ff = (if fileFlag = [] then defaultSecretsFile else fileFlag)"
      and k: "getOrCreateStaticKey L w = (Inr key, w1)"
      and l: "loadStore L (expandPath L w1 ff) key w1 = Inr store"
      and p: "store pinKey = Some h"
      and v: "fst (requirePIN L store w1) = Some e"
  shows "changePinCmd L ff w
           = (Fatal ''Authentication failed: '' (Some e), snd (requirePIN L store w1))
       \<and> files (snd (changePinCmd L ff w)) = files w1
       \<and> removePinCmd L ff w
           = (Fatal ''Authentication failed: '' (Some e), snd (requirePIN L store w1))
       \<and> files (snd (removePinCmd L ff w)) = files w1
       \<and> fst (Execute L fileFlag cmd w) = Inl e
       \<and> files (snd (Execute L fileFlag cmd w)) = files w1
       \<and> loadStore L (expandPath L w1 ff) key (snd (Execute L fileFlag cmd w)) = Inr store"
proof -
  obtain w2 where r: "requirePIN L store w1 = (Some e, w2)"
    using v by (cases "requirePIN L store w1") simp
  have fw: "files w2 = files w1" using requirePIN_frame(1)[of L store w1] r by simp
  have c: "changePinCmd L ff w = (Fatal ''Authentication failed: '' (Some e), w2)"
    using k l r by (simp add: changePinCmd_def)
  have d: "removePinCmd L ff w = (Fatal ''Authentication failed: '' (Some e), w2)"
    using k l r by (simp add: removePinCmd_def)
  have h: "PersistentPreRunE L fileFlag w = ((Some e, ff), w2)"
    using k l r f by (simp add: PersistentPreRunE_def Let_def)
  have x: "Execute L fileFlag cmd w = (Inl e, w2)"
    using h by (simp add: Execute_def)
  show ?thesis using c d x r fw l by (simp add: loadStore_files[OF fw])
qed

theorem verifier_change_requires_verify_witness:
  "changePinCmd demo_lib defaultSecretsFile (demo_world demo_files [Inr ''0000''] [] [])
     = (Fatal ''Authentication failed: '' (Some IncorrectPIN),
        demo_world demo_files [] [''Enter PIN: ''] [])
   \<and> removePinCmd demo_lib defaultSecretsFile (demo_world demo_files [Inr ''0000''] [] [])
     = (Fatal ''Authentication failed: '' (Some IncorrectPIN),
        demo_world demo_files [] [''Enter PIN: ''] [])
   \<and> fst (Execute demo_lib [] (CmdDelete pinKey) (demo_world demo_files [Inr ''0000''] [] []))
       = Inl IncorrectPIN
   \<and> files (snd (Execute demo_lib [] (CmdDelete pinKey) (demo_world demo_files [Inr ''0000''] [] [])))
       = demo_files"
proof -
  let ?w = "demo_world demo_files [Inr ''0000''] [] []"
  have f: "defaultSecretsFile = (if ([]::string) = [] then defaultSecretsFile else [])" by simp
  have l: "loadStore demo_lib (expandPath demo_lib ?w defaultSecretsFile) demo_key ?w = Inr demo_store"
    by (simp only: demo_expandPath demo_files_load)
  have r: "requirePIN demo_lib demo_store ?w
             = (Some IncorrectPIN, demo_world demo_files [] [''Enter PIN: ''] [])"
    by (simp add: demo_requirePIN)
  have v: "fst (requirePIN demo_lib demo_store ?w) = Some IncorrectPIN"
    by (simp add: r)
  have s: "files (demo_world demo_files [Inr ''0000''] [] []) = demo_files"
    by (simp add: demo_world_sel)
  show ?thesis
    using verifier_change_requires_verify[OF f demo_files_getKey l demo_store_pin v, of "CmdDelete pinKey"]
    by (simp only: r snd_conv s)
qed

end
